theory Spec2Isabelle
  imports Main
begin

section \<open>JavaScript values\<close>

text \<open>
  The helper class \<^verbatim>\<open>Util\<close> (\<^verbatim>\<open>src/copado-function/app/common/Util.js\<close>) works on
  JSON-like data: what \<^verbatim>\<open>JSON.parse\<close> returns and what the callers pass in. A value is
  one of the ECMAScript primitives or a tree of arrays and plain objects.

  \<^item> Numbers are the integer-valued ones (tenant ids and exit codes are); fractions, NaN
    and the infinities are not values of this model.
  \<^item> Strings are byte lists; the characters the code inspects are ASCII.
  \<^item> An object is the list of its own properties in the order \<^verbatim>\<open>Object.keys\<close> enumerates
    them (the engine puts names that are array indices first), with distinct names. A
    value does not carry a prototype: parsed data has the ordinary one. The objects that
    the normaliser builds are followed together with their prototype while they are built,
    since an assignment to \<^verbatim>\<open>__proto__\<close> can replace it; of the object returned the
    value keeps the own properties.
\<close>

datatype jsval =
    JUndefined
  | JNull
  | JBool bool
  | JNum int
  | JStr string
  | JArr "jsval list"
  | JObj "(string \<times> jsval) list"

text \<open>What the code can throw: \<^verbatim>\<open>new Error(msg)\<close>, the engine's TypeError (a property of
  \<^verbatim>\<open>undefined\<close>/\<^verbatim>\<open>null\<close>, a value that is not iterable), the SyntaxError of
  \<^verbatim>\<open>JSON.parse\<close>, and whatever the file system raises.\<close>

datatype exn =
    Error string
  | TypeError
  | SyntaxError
  | SystemError string

subsection \<open>Conversions\<close>

text \<open>ToBoolean: the operand of \<^verbatim>\<open>!x\<close> and of \<^verbatim>\<open>a && b\<close>.\<close>

fun truthy :: "jsval \<Rightarrow> bool" where
  "truthy JUndefined = False"
| "truthy JNull = False"
| "truthy (JBool b) = b"
| "truthy (JNum n) = (n \<noteq> 0)"
| "truthy (JStr s) = (s \<noteq> [])"
| "truthy (JArr xs) = True"
| "truthy (JObj ps) = True"

definition digit_char :: "nat \<Rightarrow> char" where
  "digit_char d = char_of (48 + d)"

fun show_nat :: "nat \<Rightarrow> string" where
  "show_nat n = (if n < 10 then [digit_char n] else show_nat (n div 10) @ [digit_char (n mod 10)])"

definition show_int :: "int \<Rightarrow> string" where
  "show_int i = (if i < 0 then CHR ''-'' # show_nat (nat (- i)) else show_nat (nat i))"

text \<open>\<^verbatim>\<open>Array.prototype.join\<close> on strings.\<close>

fun join :: "string \<Rightarrow> string list \<Rightarrow> string" where
  "join sep [] = []"
| "join sep [x] = x"
| "join sep (x # y # ys) = x @ sep @ join sep (y # ys)"

text \<open>ToString, as string concatenation, template literals and property keys apply it.
  A number prints its decimal digits, as \<^verbatim>\<open>Number::toString\<close> does for the integers a
  double holds exactly (below 2^53).
  An array prints its elements joined by commas (\<^verbatim>\<open>null\<close> and \<^verbatim>\<open>undefined\<close> as the
  empty string), a plain object prints as \<^verbatim>\<open>[object Object]\<close>.\<close>

fun to_string :: "jsval \<Rightarrow> string" where
  "to_string JUndefined = ''undefined''"
| "to_string JNull = ''null''"
| "to_string (JBool b) = (if b then ''true'' else ''false'')"
| "to_string (JNum n) = show_int n"
| "to_string (JStr s) = s"
| "to_string (JArr xs) =
     join '','' (map (\<lambda>x. if x = JUndefined \<or> x = JNull then [] else to_string x) xs)"
| "to_string (JObj ps) = ''[object Object]''"

declare show_nat.simps [simp del]

text \<open>ToNumber on a string (the StringNumericLiteral grammar): surrounding (ASCII) white
  space is dropped, the empty string is \<open>0\<close>, then a hexadecimal, octal or binary integer, or a signed
  decimal with optional fraction and exponent. \<open>None\<close> stands for a result that equals no
  number of this model: NaN, an infinity, or a value with a fractional part. The value is
  computed exactly; a double rounds it beyond 2^53.\<close>

definition is_ws :: "char \<Rightarrow> bool" where
  "is_ws c = (c \<in> set [CHR 0x09, CHR 0x0A, CHR 0x0B, CHR 0x0C, CHR 0x0D, CHR 0x20])"

definition trim :: "string \<Rightarrow> string" where
  "trim s = rev (dropWhile is_ws (rev (dropWhile is_ws s)))"

definition digit_val :: "char \<Rightarrow> nat option" where
  "digit_val c =
     (let n = (of_char c :: nat) in
      if 48 \<le> n \<and> n \<le> 57 then Some (n - 48)
      else if 97 \<le> n \<and> n \<le> 102 then Some (n - 87)
      else if 65 \<le> n \<and> n \<le> 70 then Some (n - 55)
      else None)"

definition is_digit :: "nat \<Rightarrow> char \<Rightarrow> bool" where
  "is_digit base c = (case digit_val c of Some d \<Rightarrow> d < base | None \<Rightarrow> False)"

definition digits_val :: "nat \<Rightarrow> string \<Rightarrow> nat" where
  "digits_val base s = foldl (\<lambda>a c. base * a + (case digit_val c of Some d \<Rightarrow> d | None \<Rightarrow> 0)) 0 s"

definition radix_literal :: "nat \<Rightarrow> string \<Rightarrow> int option" where
  "radix_literal base s =
     (if s \<noteq> [] \<and> list_all (is_digit base) s then Some (int (digits_val base s)) else None)"

definition exponent_part :: "string \<Rightarrow> int option" where
  "exponent_part s =
     (case s of
        [] \<Rightarrow> Some 0
      | c # r \<Rightarrow>
          if c = CHR ''e'' \<or> c = CHR ''E'' then
            (let (neg, ds) = (case r of
                                [] \<Rightarrow> (False, [])
                              | d # r' \<Rightarrow> if d = CHR ''-'' then (True, r')
                                          else if d = CHR ''+'' then (False, r') else (False, r))
             in if ds \<noteq> [] \<and> list_all (is_digit 10) ds
                then Some (if neg then - int (digits_val 10 ds) else int (digits_val 10 ds))
                else None)
          else None)"

definition decimal_literal :: "string \<Rightarrow> int option" where
  "decimal_literal s =
     (let (neg, r) = (case s of
                        [] \<Rightarrow> (False, [])
                      | c # r' \<Rightarrow> if c = CHR ''-'' then (True, r')
                                  else if c = CHR ''+'' then (False, r') else (False, s));
          ip = takeWhile (is_digit 10) r;
          r1 = dropWhile (is_digit 10) r;
          (fp, r2) = (case r1 of
                        [] \<Rightarrow> ([], [])
                      | c # r' \<Rightarrow> if c = CHR ''.''
                                  then (takeWhile (is_digit 10) r', dropWhile (is_digit 10) r')
                                  else ([], r1))
      in if ip = [] \<and> fp = [] then None
         else case exponent_part r2 of
                None \<Rightarrow> None
              | Some e \<Rightarrow>
                  (let m = int (digits_val 10 (ip @ fp));
                       k = e - int (length fp);
                       v = (if 0 \<le> k then Some (m * 10 ^ nat k)
                            else if m mod 10 ^ nat (- k) = 0 then Some (m div 10 ^ nat (- k))
                            else None)
                   in map_option (\<lambda>x. if neg then - x else x) v))"

definition string_to_number :: "string \<Rightarrow> int option" where
  "string_to_number s =
     (let t = trim s in
      if t = [] then Some 0
      else if take 2 t = ''0x'' \<or> take 2 t = ''0X'' then radix_literal 16 (drop 2 t)
      else if take 2 t = ''0o'' \<or> take 2 t = ''0O'' then radix_literal 8 (drop 2 t)
      else if take 2 t = ''0b'' \<or> take 2 t = ''0B'' then radix_literal 2 (drop 2 t)
      else decimal_literal t)"

subsection \<open>Loose equality\<close>

text \<open>\<^verbatim>\<open>x == y\<close> (IsLooselyEqual). Two objects are equal only when they are the same
  reference; the values compared here come from two different places (a freshly parsed
  file and an argument), so two objects are never equal. An object against a primitive
  is converted with ToPrimitive (its string form), a boolean with ToNumber; \<^verbatim>\<open>null\<close> and
  \<^verbatim>\<open>undefined\<close> equal each other and nothing else; a number against a string compares
  the number with ToNumber of the string.\<close>

fun is_object :: "jsval \<Rightarrow> bool" where
  "is_object (JArr xs) = True"
| "is_object (JObj ps) = True"
| "is_object v = False"

fun to_primitive :: "jsval \<Rightarrow> jsval" where
  "to_primitive (JArr xs) = JStr (to_string (JArr xs))"
| "to_primitive (JObj ps) = JStr (to_string (JObj ps))"
| "to_primitive v = v"

fun bool_to_number :: "jsval \<Rightarrow> jsval" where
  "bool_to_number (JBool b) = JNum (if b then 1 else 0)"
| "bool_to_number v = v"

fun nullish :: "jsval \<Rightarrow> bool" where
  "nullish JUndefined = True"
| "nullish JNull = True"
| "nullish v = False"

fun primitive_eq :: "jsval \<Rightarrow> jsval \<Rightarrow> bool" where
  "primitive_eq (JNum m) (JNum n) = (m = n)"
| "primitive_eq (JStr s) (JStr t) = (s = t)"
| "primitive_eq (JNum m) (JStr t) = (string_to_number t = Some m)"
| "primitive_eq (JStr s) (JNum n) = (string_to_number s = Some n)"
| "primitive_eq x y = False"

definition loose_eq :: "jsval \<Rightarrow> jsval \<Rightarrow> bool" where
  "loose_eq x y =
     (if is_object x \<and> is_object y then False
      else if nullish x \<or> nullish y then nullish x \<and> nullish y
      else primitive_eq (bool_to_number (to_primitive x)) (bool_to_number (to_primitive y)))"

subsection \<open>Properties\<close>

text \<open>\<^verbatim>\<open>v[k]\<close> and \<^verbatim>\<open>v.k\<close>: reading a property of \<^verbatim>\<open>undefined\<close> or \<^verbatim>\<open>null\<close> throws a
  TypeError, a missing property reads as \<^verbatim>\<open>undefined\<close>. Arrays and strings have their
  indices and \<^verbatim>\<open>length\<close>.\<close>

definition array_index :: "string \<Rightarrow> nat \<Rightarrow> nat option" where
  "array_index k n = find (\<lambda>i. show_nat i = k) [0..<n]"

fun get_prop :: "jsval \<Rightarrow> string \<Rightarrow> exn + jsval" where
  "get_prop JUndefined k = Inl TypeError"
| "get_prop JNull k = Inl TypeError"
| "get_prop (JBool b) k = Inr JUndefined"
| "get_prop (JNum n) k = Inr JUndefined"
| "get_prop (JStr s) k =
     (if k = ''length'' then Inr (JNum (int (length s)))
      else case array_index k (length s) of
             Some i \<Rightarrow> Inr (JStr [s ! i])
           | None \<Rightarrow> Inr JUndefined)"
| "get_prop (JArr xs) k =
     (if k = ''length'' then Inr (JNum (int (length xs)))
      else case array_index k (length xs) of
             Some i \<Rightarrow> Inr (xs ! i)
           | None \<Rightarrow> Inr JUndefined)"
| "get_prop (JObj ps) k = (case map_of ps k of Some v \<Rightarrow> Inr v | None \<Rightarrow> Inr JUndefined)"

text \<open>\<^verbatim>\<open>Object.keys(v)\<close>.\<close>

fun Object_keys :: "jsval \<Rightarrow> exn + string list" where
  "Object_keys JUndefined = Inl TypeError"
| "Object_keys JNull = Inl TypeError"
| "Object_keys (JBool b) = Inr []"
| "Object_keys (JNum n) = Inr []"
| "Object_keys (JStr s) = Inr (map show_nat [0..<length s])"
| "Object_keys (JArr xs) = Inr (map show_nat [0..<length xs])"
| "Object_keys (JObj ps) = Inr (map fst ps)"

text \<open>\<^verbatim>\<open>for (const item of v)\<close>: arrays and strings are iterable, nothing else is.\<close>

fun iterate :: "jsval \<Rightarrow> exn + jsval list" where
  "iterate (JArr xs) = Inr xs"
| "iterate (JStr s) = Inr (map (\<lambda>c. JStr [c]) s)"
| "iterate v = Inl TypeError"

text \<open>Defining or overwriting an own data property: an existing property keeps its place, a
  new one is added last. This is what \<^verbatim>\<open>JSON.parse\<close> does for each member, and what
  \<^verbatim>\<open>obj[k] = v\<close> does when \<open>k\<close> is an own property of \<open>obj\<close>. (The engine would enumerate
  a new name that is an array index before the others; the objects built this way are
  returned or stored, and their order is not looked at.)\<close>

fun set_prop :: "(string \<times> jsval) list \<Rightarrow> string \<Rightarrow> jsval \<Rightarrow> (string \<times> jsval) list" where
  "set_prop [] k v = [(k, v)]"
| "set_prop ((k', v') # ps) k v =
     (if k' = k then (k, v) # ps else (k', v') # set_prop ps k v)"

text \<open>The object that a function builds from \<^verbatim>\<open>{}\<close> has \<^verbatim>\<open>Object.prototype\<close> as its
  prototype, and with it the inherited accessor \<^verbatim>\<open>__proto__\<close>. While it is built it is
  its own properties together with its prototype: the ordinary one, none, or an object
  value that an assignment to \<^verbatim>\<open>__proto__\<close> has put there (kept with that value's own
  prototype).\<close>

datatype proto = ObjectPrototype | NullPrototype | ValuePrototype jsval proto

text \<open>Does a lookup of \<^verbatim>\<open>__proto__\<close> along the prototype chain end at the accessor of
  \<^verbatim>\<open>Object.prototype\<close>? Not when the chain ends at \<^verbatim>\<open>null\<close>, and not when an object on
  the way has an own property of that name (\<^verbatim>\<open>JSON.parse\<close> creates such properties).\<close>

fun reaches_setter :: "proto \<Rightarrow> bool" where
  "reaches_setter ObjectPrototype = True"
| "reaches_setter NullPrototype = False"
| "reaches_setter (ValuePrototype v p) =
     (case v of
        JObj ps \<Rightarrow> (case map_of ps ''__proto__'' of None \<Rightarrow> reaches_setter p | Some w \<Rightarrow> False)
      | _ \<Rightarrow> reaches_setter p)"

text \<open>\<^verbatim>\<open>response[k] = v\<close> on such an object; \<open>vproto\<close> is the prototype of \<open>v\<close> when \<open>v\<close> is
  an object. Every name but \<^verbatim>\<open>__proto__\<close> becomes or stays an own property. The name
  \<^verbatim>\<open>__proto__\<close>, when it is not an own property and the accessor is reached, calls the
  setter: an object value replaces the prototype, \<^verbatim>\<open>null\<close> removes it, any other value
  is ignored; no own property is created.\<close>

definition assign ::
  "(string \<times> jsval) list \<times> proto \<Rightarrow> string \<Rightarrow> jsval \<Rightarrow> proto \<Rightarrow> (string \<times> jsval) list \<times> proto" where
  "assign response k v vproto =
     (case response of
        (own, p) \<Rightarrow>
          if k = ''__proto__'' \<and> map_of own k = None \<and> reaches_setter p
          then (if is_object v then (own, ValuePrototype v vproto)
                else if v = JNull then (own, NullPrototype)
                else (own, p))
          else (set_prop own k v, p))"


section \<open>Effects\<close>

text \<open>The code logs through the \<^verbatim>\<open>Log\<close> collaborator, asks the file system and runs
  child processes. A computation returns its result, or the exception it throws, together
  with the events it caused, in order.\<close>

datatype level = Debug | Progress | Info | Warn | Err

datatype event =
    Log level string
  | ExistsSync string
  | ReadFileSync string
  | ExecSync string

type_synonym 'a comp = "(exn + 'a) \<times> event list"

definition ok :: "'a \<Rightarrow> 'a comp" where
  "ok x = (Inr x, [])"

definition raise :: "exn \<Rightarrow> 'a comp" where
  "raise e = (Inl e, [])"

definition emit :: "event \<Rightarrow> unit comp" where
  "emit ev = (Inr (), [ev])"

definition lift :: "exn + 'a \<Rightarrow> 'a comp" where
  "lift r = (r, [])"

text \<open>Sequencing: an exception ends the computation, the events so far are kept.\<close>

definition and_then :: "'a comp \<Rightarrow> ('a \<Rightarrow> 'b comp) \<Rightarrow> 'b comp" where
  "and_then m f =
     (case m of
        (Inl e, t) \<Rightarrow> (Inl e, t)
      | (Inr x, t) \<Rightarrow> (case f x of (r, t') \<Rightarrow> (r, t @ t')))"

text \<open>What the code observes of the exception that \<^verbatim>\<open>execSync\<close> threw: \<^verbatim>\<open>ex.status\<close>
  (the exit code; \<^verbatim>\<open>null\<close> after a signal or a failed spawn; \<^verbatim>\<open>undefined\<close> when the
  exception has no such field), \<^verbatim>\<open>ex.message\<close>, and the string form \<^verbatim>\<open>String(ex)\<close>.\<close>

record child_error =
  status :: jsval
  message :: string
  as_string :: string

text \<open>The host: \<^verbatim>\<open>node:fs\<close>, \<^verbatim>\<open>node:child_process\<close> and \<^verbatim>\<open>JSON.parse\<close>. \<^verbatim>\<open>execSync\<close>
  returns \<open>None\<close> when the command succeeded.\<close>

record host =
  existsSync :: "string \<Rightarrow> bool"
  readFileSync :: "string \<Rightarrow> exn + string"
  JSON_parse :: "string \<Rightarrow> exn + jsval"
  execSync :: "string \<Rightarrow> child_error option"

text \<open>The central configuration handed to the constructor.\<close>

record central_config =
  configFilePath :: string
  installMcdevLocally :: bool
  mcdevVersion :: string

section \<open>Command executor\<close>

text \<open>A command is a string or an array of strings (\<^verbatim>\<open>@param {string|string[]} command\<close>);
  an array is joined with \<^verbatim>\<open>' && '\<close>.\<close>

datatype command = Cmd string | Cmds "string list"

fun command_line :: "command \<Rightarrow> string" where
  "command_line (Cmd s) = s"
| "command_line (Cmds xs) = join '' && '' xs"

text \<open>The prefixes of the log lines, as UTF-8: a high-voltage sign and a space; a heavy
  check mark with its variation selector and two spaces; a cross mark and two spaces.\<close>

definition bolt :: string where
  "bolt = [CHR 0xE2, CHR 0x9A, CHR 0xA1, CHR 0x20]"

definition check_mark :: string where
  "check_mark = [CHR 0xE2, CHR 0x9C, CHR 0x94, CHR 0xEF, CHR 0xB8, CHR 0x8F, CHR 0x20, CHR 0x20]"

definition cross_mark :: string where
  "cross_mark = [CHR 0xE2, CHR 0x9D, CHR 0x8C, CHR 0x20, CHR 0x20]"

text \<open>\<^verbatim>\<open>execCommand(preMsg, command, postMsg)\<close>: fail-fast. An absent message
  (\<^verbatim>\<open>null\<close> or \<^verbatim>\<open>undefined\<close>) is \<open>None\<close>.\<close>

definition execCommand :: "host \<Rightarrow> string option \<Rightarrow> command \<Rightarrow> string option \<Rightarrow> unit comp" where
  "execCommand h preMsg command postMsg =
     and_then (case preMsg of Some m \<Rightarrow> emit (Log Progress m) | None \<Rightarrow> ok ()) (\<lambda>_.
     and_then (emit (Log Debug (bolt @ command_line command))) (\<lambda>_.
     and_then (emit (ExecSync (command_line command))) (\<lambda>_.
       case execSync h (command_line command) of
         Some ex \<Rightarrow>
           and_then (emit (Log Info (to_string (status ex) @ '': '' @ message ex))) (\<lambda>_.
             raise (Error (as_string ex)))
       | None \<Rightarrow>
           (case postMsg of Some m \<Rightarrow> emit (Log Debug (check_mark @ m)) | None \<Rightarrow> ok ()))))"

text \<open>\<^verbatim>\<open>execCommandReturnStatus(preMsg, command, postMsg)\<close>: status-capturing.\<close>

definition execCommandReturnStatus ::
  "host \<Rightarrow> string option \<Rightarrow> command \<Rightarrow> string option \<Rightarrow> jsval comp" where
  "execCommandReturnStatus h preMsg command postMsg =
     and_then (case preMsg of Some m \<Rightarrow> emit (Log Progress m) | None \<Rightarrow> ok ()) (\<lambda>_.
     and_then (emit (Log Debug (bolt @ command_line command))) (\<lambda>_.
     and_then (emit (ExecSync (command_line command))) (\<lambda>_.
       case execSync h (command_line command) of
         Some ex \<Rightarrow>
           and_then (emit (Log Warn (cross_mark @ to_string (status ex) @ '': '' @ message ex))) (\<lambda>_.
             ok (status ex))
       | None \<Rightarrow>
           and_then (case postMsg of Some m \<Rightarrow> emit (Log Progress (check_mark @ m)) | None \<Rightarrow> ok ()) (\<lambda>_.
             ok (JNum 0)))))"

section \<open>Configuration normaliser\<close>

text \<open>\<^verbatim>\<open>_convertEnvVars(envVarArr)\<close>: a falsy argument is returned as it is, a string is
  parsed, and the entries are written into a fresh object one after the other. The values
  written come from the argument and have the ordinary prototype.\<close>

fun convertEnvVars_loop ::
  "(string \<times> jsval) list \<times> proto \<Rightarrow> jsval list \<Rightarrow> exn + (string \<times> jsval) list \<times> proto" where
  "convertEnvVars_loop response [] = Inr response"
| "convertEnvVars_loop response (item # items) =
     (case get_prop item ''name'' of
        Inl e \<Rightarrow> Inl e
      | Inr name \<Rightarrow>
          (case get_prop item ''value'' of
             Inl e \<Rightarrow> Inl e
           | Inr val \<Rightarrow>
               convertEnvVars_loop (assign response (to_string name) val ObjectPrototype) items))"

text \<open>The value returned, with the prototype of the object when one was built. A value of
  the model is the own properties of an object, so the second component is dropped in the
  result of \<^verbatim>\<open>_convertEnvVars\<close>; the grouped transform needs it where the object
  becomes a prototype itself.\<close>

definition convertEnvVars_response ::
  "(string \<Rightarrow> exn + jsval) \<Rightarrow> jsval \<Rightarrow> exn + jsval \<times> proto" where
  "convertEnvVars_response parse envVarArr =
     (if \<not> truthy envVarArr then Inr (envVarArr, ObjectPrototype)
      else case (case envVarArr of JStr s \<Rightarrow> parse s | _ \<Rightarrow> Inr envVarArr) of
             Inl e \<Rightarrow> Inl e
           | Inr arr \<Rightarrow>
               (case iterate arr of
                  Inl e \<Rightarrow> Inl e
                | Inr items \<Rightarrow>
                    map_sum id (\<lambda>(own, p). (JObj own, p))
                      (convertEnvVars_loop ([], ObjectPrototype) items)))"

definition convertEnvVars :: "(string \<Rightarrow> exn + jsval) \<Rightarrow> jsval \<Rightarrow> exn + jsval" where
  "convertEnvVars parse envVarArr = map_sum id fst (convertEnvVars_response parse envVarArr)"






section \<open>Target resolver\<close>

text \<open>\<^verbatim>\<open>getBuName(credName, mid)\<close>. The business-unit names are filtered by
  \<^verbatim>\<open>businessUnits[buName] == mid\<close>; the guard before has made sure that the property reads
  in the filter cannot throw.\<close>

definition matching_bu_names :: "jsval \<Rightarrow> jsval \<Rightarrow> string list \<Rightarrow> string list" where
  "matching_bu_names businessUnits mid names =
     filter (\<lambda>buName. case get_prop businessUnits buName of
                         Inr v \<Rightarrow> loose_eq v mid
                       | Inl e \<Rightarrow> False) names"

definition getBuName :: "central_config \<Rightarrow> host \<Rightarrow> jsval \<Rightarrow> jsval \<Rightarrow> jsval comp" where
  \<open>getBuName CONFIG h credName mid =
     (if \<not> truthy credName then raise (Error ''System Property "credentialName" not set'')
      else if \<not> truthy mid then raise (Error ''System Property "mid" not set'')
      else
        and_then (emit (ExistsSync (configFilePath CONFIG))) (\<lambda>_.
        if \<not> existsSync h (configFilePath CONFIG)
        then raise (Error (''Could not find config file '' @ configFilePath CONFIG))
        else
          and_then (emit (ReadFileSync (configFilePath CONFIG))) (\<lambda>_.
          and_then (lift (readFileSync h (configFilePath CONFIG))) (\<lambda>content.
          and_then (lift (JSON_parse h content)) (\<lambda>config.
          and_then (lift (get_prop config ''credentials'')) (\<lambda>credentials.
          and_then (lift (get_prop credentials (to_string credName))) (\<lambda>cred.
          if \<not> truthy cred then ok JUndefined
          else
            and_then (lift (get_prop cred ''businessUnits'')) (\<lambda>businessUnits.
            if \<not> truthy businessUnits then ok JUndefined
            else
              and_then (lift (Object_keys businessUnits)) (\<lambda>names.
              case matching_bu_names businessUnits mid names of
                [buName] \<Rightarrow>
                  and_then (emit (Log Debug (''BU Name is: '' @ to_string credName @ ''/'' @ buName))) (\<lambda>_.
                  ok (JStr (to_string credName @ ''/'' @ buName)))
              | _ \<Rightarrow>
                  raise (Error (''MID '' @ to_string mid @ '' not found for '' @ to_string credName)))))))))))\<close>

section \<open>Concrete hosts for the examples\<close>

text \<open>The theorems below hold for every host. The examples of the specification run on
  concrete ones. This \<^verbatim>\<open>JSON.parse\<close> reads the texts the examples use: objects, arrays,
  strings with the single-character escapes, integers, \<^verbatim>\<open>true\<close>, \<^verbatim>\<open>false\<close> and
  \<^verbatim>\<open>null\<close>. A later duplicate of a member name overwrites the earlier value. Fractions,
  exponents and \<^verbatim>\<open>\u\<close> escapes are outside it (it answers SyntaxError there), and
  so are member names that are array indices (it keeps them in the order of the text).\<close>

definition skip_ws :: "string \<Rightarrow> string" where
  "skip_ws s = dropWhile (\<lambda>c. c \<in> set [CHR 0x20, CHR 0x09, CHR 0x0A, CHR 0x0D]) s"

definition unescape :: "char \<Rightarrow> char option" where
  "unescape c =
     (if c = CHR 0x22 \<or> c = CHR 0x5C \<or> c = CHR ''/'' then Some c
      else if c = CHR ''b'' then Some (CHR 0x08)
      else if c = CHR ''f'' then Some (CHR 0x0C)
      else if c = CHR ''n'' then Some (CHR 0x0A)
      else if c = CHR ''r'' then Some (CHR 0x0D)
      else if c = CHR ''t'' then Some (CHR 0x09)
      else None)"

text \<open>The rest of a string literal after its opening quote.\<close>

fun parse_string :: "string \<Rightarrow> string \<Rightarrow> (string \<times> string) option" where
  "parse_string acc [] = None"
| "parse_string acc [c] = (if c = CHR 0x22 then Some (acc, []) else None)"
| "parse_string acc (c # d # r) =
     (if c = CHR 0x22 then Some (acc, d # r)
      else if c = CHR 0x5C then
        (case unescape d of Some u \<Rightarrow> parse_string (acc @ [u]) r | None \<Rightarrow> None)
      else if (of_char c :: nat) < 32 then None
      else parse_string (acc @ [c]) (d # r))"

definition parse_number :: "string \<Rightarrow> (jsval \<times> string) option" where
  "parse_number s =
     (let (neg, r) = (case s of
                        [] \<Rightarrow> (False, [])
                      | c # r' \<Rightarrow> if c = CHR ''-'' then (True, r') else (False, s));
          ds = takeWhile (is_digit 10) r;
          rest = dropWhile (is_digit 10) r
      in if ds = [] \<or> (hd ds = CHR ''0'' \<and> length ds > 1) then None
         else if rest \<noteq> [] \<and> hd rest \<in> set [CHR ''.'', CHR ''e'', CHR ''E''] then None
         else Some (JNum (if neg then - int (digits_val 10 ds) else int (digits_val 10 ds)), rest))"

fun parse_value :: "nat \<Rightarrow> string \<Rightarrow> (jsval \<times> string) option"
  and parse_elements :: "nat \<Rightarrow> jsval list \<Rightarrow> string \<Rightarrow> (jsval \<times> string) option"
  and parse_members :: "nat \<Rightarrow> (string \<times> jsval) list \<Rightarrow> string \<Rightarrow> (jsval \<times> string) option"
where
  "parse_value 0 s = None"
| "parse_value (Suc n) s =
     (case skip_ws s of
        [] \<Rightarrow> None
      | c # r \<Rightarrow>
          if c = CHR 0x22 then map_option (\<lambda>(str, r'). (JStr str, r')) (parse_string [] r)
          else if c = CHR ''['' then
            (case skip_ws r of
               [] \<Rightarrow> None
             | d # r' \<Rightarrow> if d = CHR '']'' then Some (JArr [], r') else parse_elements n [] r)
          else if c = CHR ''{'' then
            (case skip_ws r of
               [] \<Rightarrow> None
             | d # r' \<Rightarrow> if d = CHR ''}'' then Some (JObj [], r') else parse_members n [] r)
          else if take 4 (c # r) = ''true'' then Some (JBool True, drop 3 r)
          else if take 5 (c # r) = ''false'' then Some (JBool False, drop 4 r)
          else if take 4 (c # r) = ''null'' then Some (JNull, drop 3 r)
          else parse_number (c # r))"
| "parse_elements 0 acc s = None"
| "parse_elements (Suc n) acc s =
     (case parse_value n s of
        None \<Rightarrow> None
      | Some (v, r) \<Rightarrow>
          (case skip_ws r of
             [] \<Rightarrow> None
           | c # r' \<Rightarrow>
               if c = CHR '','' then parse_elements n (acc @ [v]) r'
               else if c = CHR '']'' then Some (JArr (acc @ [v]), r')
               else None))"
| "parse_members 0 acc s = None"
| "parse_members (Suc n) acc s =
     (case skip_ws s of
        [] \<Rightarrow> None
      | q # r \<Rightarrow>
          if q \<noteq> CHR 0x22 then None
          else
            (case parse_string [] r of
               None \<Rightarrow> None
             | Some (k, r1) \<Rightarrow>
                 (case skip_ws r1 of
                    [] \<Rightarrow> None
                  | c # r2 \<Rightarrow>
                      if c \<noteq> CHR '':'' then None
                      else
                        (case parse_value n r2 of
                           None \<Rightarrow> None
                         | Some (v, r3) \<Rightarrow>
                             (case skip_ws r3 of
                                [] \<Rightarrow> None
                              | d # r4 \<Rightarrow>
                                  if d = CHR '','' then parse_members n (set_prop acc k v) r4
                                  else if d = CHR ''}'' then Some (JObj (set_prop acc k v), r4)
                                  else None)))))"

definition json_parse :: "string \<Rightarrow> exn + jsval" where
  "json_parse s =
     (case parse_value (Suc (length s)) s of
        None \<Rightarrow> Inl SyntaxError
      | Some (v, r) \<Rightarrow> if skip_ws r = [] then Inr v else Inl SyntaxError)"

text \<open>A host whose file system holds one file, and where every command succeeds.\<close>

definition file_host :: "string \<Rightarrow> string \<Rightarrow> host" where
  "file_host path content =
     \<lparr>existsSync = (\<lambda>p. p = path),
      readFileSync = (\<lambda>p. if p = path then Inr content else Inl (SystemError ''ENOENT'')),
      JSON_parse = json_parse,
      execSync = (\<lambda>cmd. None)\<rparr>"

text \<open>The exceptions of Node's \<^verbatim>\<open>execSync\<close>: a child that exits with a non-zero code
  (the message is \<^verbatim>\<open>Command failed: \<close> and the command line, the status is the code); a
  child killed by a signal (the status is \<^verbatim>\<open>null\<close>); and the TypeError for an empty
  command line, thrown before any process is started (it has no status field, so
  \<^verbatim>\<open>ex.status\<close> reads \<^verbatim>\<open>undefined\<close>; its text is abbreviated here).\<close>

definition exited :: "int \<Rightarrow> string \<Rightarrow> child_error" where
  "exited code cmd =
     \<lparr>status = JNum code,
      message = ''Command failed: '' @ cmd,
      as_string = ''Error: Command failed: '' @ cmd\<rparr>"

definition killed :: "string \<Rightarrow> child_error" where
  "killed cmd =
     \<lparr>status = JNull,
      message = ''Command failed: '' @ cmd,
      as_string = ''Error: Command failed: '' @ cmd\<rparr>"

definition not_started :: "string \<Rightarrow> child_error" where
  "not_started cmd =
     \<lparr>status = JUndefined,
      message = ''The argument file cannot be empty. Received '' @ cmd,
      as_string = ''TypeError [ERR_INVALID_ARG_VALUE]: The argument file cannot be empty. Received '' @ cmd\<rparr>"

text \<open>A host with no files on which \<^verbatim>\<open>./deploy.sh\<close> exits with code 3,
  \<^verbatim>\<open>sleep 60\<close> is killed by a signal, the empty command line is rejected, and every other
  command succeeds.\<close>

definition shell_host :: host where
  "shell_host =
     \<lparr>existsSync = (\<lambda>p. False),
      readFileSync = (\<lambda>p. Inl (SystemError ''ENOENT'')),
      JSON_parse = json_parse,
      execSync = (\<lambda>cmd. if cmd = [] then Some (not_started cmd)
                         else if cmd = ''./deploy.sh'' then Some (exited 3 cmd)
                         else if cmd = ''sleep 60'' then Some (killed cmd)
                         else None)\<rparr>"

definition example_config :: central_config where
  "example_config =
     \<lparr>configFilePath = ''.mcdev.json'', installMcdevLocally = False, mcdevVersion = []\<rparr>"

definition example_file :: string where
  \<open>example_file = ''{"credentials":{"C1":{"businessUnits":{"bu1":"100","bu2":"200"}}}}''\<close>

section \<open>Well-formed entries\<close>

text \<open>An entry of the flat list is an object with a string \<^verbatim>\<open>name\<close> and a \<^verbatim>\<open>value\<close>
  (\<^verbatim>\<open>EnvVar\<close>); an entry of the grouped list is an object with a string \<^verbatim>\<open>id\<close> and its
  \<^verbatim>\<open>environmentVariables\<close> (\<^verbatim>\<open>EnvChildVar\<close>). These recognisers read an entry as
  the pair it stands for.\<close>

fun env_var :: "jsval \<Rightarrow> (string \<times> jsval) option" where
  "env_var (JObj ps) =
     (case map_of ps ''name'' of
        Some (JStr n) \<Rightarrow> (case map_of ps ''value'' of Some v \<Rightarrow> Some (n, v) | None \<Rightarrow> None)
      | _ \<Rightarrow> None)"
| "env_var v = None"


section \<open>Auxiliary facts\<close>

lemmas comp_defs = ok_def raise_def emit_def lift_def and_then_def

lemma singleton_list:
  assumes "distinct xs" and "set xs = {x}"
  shows "xs = [x]"
proof (cases xs)
  case Nil
  with assms show ?thesis by simp
next
  case (Cons a as)
  with assms have "a = x" by auto
  moreover from Cons assms have "set as \<subseteq> {x}" "a \<notin> set as" by auto
  ultimately have "as = []" by (cases as) auto
  with Cons \<open>a = x\<close> show ?thesis by simp
qed

subsection \<open>Property updates\<close>

lemma map_of_set_prop: "map_of (set_prop ps k v) = (map_of ps)(k \<mapsto> v)"
  by (induction ps) auto

lemma keys_set_prop: "fst ` set (set_prop ps k v) = insert k (fst ` set ps)"
  by (simp add: dom_map_of_conv_image_fst [symmetric] map_of_set_prop)

lemma distinct_set_prop:
  assumes "distinct (map fst ps)"
  shows "distinct (map fst (set_prop ps k v))"
  using assms
proof (induction ps)
  case Nil
  then show ?case by simp
next
  case (Cons p ps)
  obtain k' v' where p: "p = (k', v')" by (cases p)
  show ?case
  proof (cases "k' = k")
    case True
    with Cons.prems p show ?thesis by simp
  next
    case False
    with Cons p show ?thesis by (simp add: keys_set_prop)
  qed
qed


subsection \<open>The filter of \<^verbatim>\<open>getBuName\<close>\<close>

lemma matching_bu_names_object:
  assumes "distinct (map fst bus)"
  shows "matching_bu_names (JObj bus) mid (map fst bus) =
         map fst (filter (\<lambda>(n, w). loose_eq w mid) bus)"
proof -
  have "filter ((\<lambda>n. case get_prop (JObj bus) n of Inr v \<Rightarrow> loose_eq v mid | Inl e \<Rightarrow> False) \<circ> fst) bus
        = filter (\<lambda>(n, w). loose_eq w mid) bus"
    using assms by (intro filter_cong) auto
  then show ?thesis
    by (simp add: matching_bu_names_def filter_map)
qed

lemma matching_bu_names_distinct:
  assumes "distinct (map fst bus)"
  shows "distinct (matching_bu_names (JObj bus) mid (map fst bus))"
  using assms by (simp add: matching_bu_names_def)

lemma matching_bu_names_set:
  assumes "distinct (map fst bus)"
  shows "set (matching_bu_names (JObj bus) mid (map fst bus)) =
         {n. \<exists>w. map_of bus n = Some w \<and> loose_eq w mid}"
proof -
  have "\<And>n. (\<exists>w. (n, w) \<in> set bus \<and> loose_eq w mid) = (\<exists>w. map_of bus n = Some w \<and> loose_eq w mid)"
    using assms by simp
  then show ?thesis
    using assms by (force simp add: matching_bu_names_object)
qed

text \<open>Once the three checks have passed and the file has been parsed to a document whose
  credential declares business units, the result depends only on the filtered names.\<close>

lemma getBuName_filtered:
  assumes "truthy credName" and "truthy mid" and "existsSync h (configFilePath CONFIG)"
    and "readFileSync h (configFilePath CONFIG) = Inr content"
    and "JSON_parse h content = Inr (JObj cfg)"
    and "map_of cfg ''credentials'' = Some (JObj creds)"
    and "map_of creds (to_string credName) = Some (JObj cred)"
    and "map_of cred ''businessUnits'' = Some (JObj bus)"
  shows "getBuName CONFIG h credName mid =
     (case matching_bu_names (JObj bus) mid (map fst bus) of
        [buName] \<Rightarrow>
          (Inr (JStr (to_string credName @ ''/'' @ buName)),
           [ExistsSync (configFilePath CONFIG), ReadFileSync (configFilePath CONFIG),
            Log Debug (''BU Name is: '' @ to_string credName @ ''/'' @ buName)])
      | _ \<Rightarrow>
          (Inl (Error (''MID '' @ to_string mid @ '' not found for '' @ to_string credName)),
           [ExistsSync (configFilePath CONFIG), ReadFileSync (configFilePath CONFIG)]))"
  using assms by (simp add: getBuName_def comp_defs split: list.splits)

text \<open>The example file of the specification, parsed.\<close>

lemma json_parse_example_file:
  "json_parse example_file =
     Inr (JObj [(''credentials'',
                 JObj [(''C1'',
                        JObj [(''businessUnits'',
                               JObj [(''bu1'', JStr ''100''), (''bu2'', JStr ''200'')])])])])"
  by code_simp

lemma loose_eq_strings: "loose_eq (JStr s) (JStr t) = (s = t)"
  by (simp add: loose_eq_def)

section \<open>Target resolver: the claims\<close>

text \<open>Claim C1. Let the configuration file exist and parse to a document whose
  \<^verbatim>\<open>credentials\<close> entry for the credential name is an object that declares
  \<^verbatim>\<open>businessUnits\<close>. If exactly one business-unit name has a stored tenant id loosely
  equal to the requested mid, \<^verbatim>\<open>getBuName\<close> logs the composed identifier at debug level
  and returns the credential name, a slash and that business-unit name.\<close>

theorem getBuName_unique_match:
  assumes "truthy credName" and "truthy mid" and "existsSync h (configFilePath CONFIG)"
    and "readFileSync h (configFilePath CONFIG) = Inr content"
    and "JSON_parse h content = Inr (JObj cfg)"
    and "map_of cfg ''credentials'' = Some (JObj creds)"
    and "map_of creds (to_string credName) = Some (JObj cred)"
    and "map_of cred ''businessUnits'' = Some (JObj bus)"
    and "distinct (map fst bus)"
    and "{n. \<exists>w. map_of bus n = Some w \<and> loose_eq w mid} = {buName}"
  shows "getBuName CONFIG h credName mid =
           (Inr (JStr (to_string credName @ ''/'' @ buName)),
            [ExistsSync (configFilePath CONFIG), ReadFileSync (configFilePath CONFIG),
             Log Debug (''BU Name is: '' @ to_string credName @ ''/'' @ buName)])"
proof -
  have d: "distinct (matching_bu_names (JObj bus) mid (map fst bus))"
    by (rule matching_bu_names_distinct [OF assms(9)])
  have s: "set (matching_bu_names (JObj bus) mid (map fst bus)) = {buName}"
    unfolding matching_bu_names_set [OF assms(9)] by (rule assms(10))
  have "matching_bu_names (JObj bus) mid (map fst bus) = [buName]"
    by (rule singleton_list [OF d s])
  then show ?thesis
    unfolding getBuName_filtered [OF assms(1-8)] by simp
qed

text \<open>The example of the specification: the file
  \<^verbatim>\<open>{"credentials":{"C1":{"businessUnits":{"bu1":"100","bu2":"200"}}}}\<close>, credential
  \<^verbatim>\<open>C1\<close> and mid \<^verbatim>\<open>100\<close> give \<^verbatim>\<open>C1/bu1\<close>. Tenant ids stored as numbers are
  found by a mid given as a string.\<close>

theorem getBuName_unique_match_witness:
  \<open>getBuName example_config (file_host ''.mcdev.json'' example_file) (JStr ''C1'') (JStr ''100'') =
     (Inr (JStr ''C1/bu1''),
      [ExistsSync ''.mcdev.json'', ReadFileSync ''.mcdev.json'', Log Debug ''BU Name is: C1/bu1''])
   \<and> getBuName example_config
        (file_host ''.mcdev.json''
           ''{"credentials":{"C1":{"businessUnits":{"_ParentBU_":510,"dev":511}}}}'')
        (JStr ''C1'') (JStr ''511'') =
     (Inr (JStr ''C1/dev''),
      [ExistsSync ''.mcdev.json'', ReadFileSync ''.mcdev.json'', Log Debug ''BU Name is: C1/dev''])\<close>
proof -
  let ?h = "file_host ''.mcdev.json'' example_file"
  let ?bus = "[(''bu1'', JStr ''100''), (''bu2'', JStr ''200'')]"
  let ?cred = "[(''businessUnits'', JObj ?bus)]"
  let ?creds = "[(''C1'', JObj ?cred)]"
  let ?cfg = "[(''credentials'', JObj ?creds)]"
  have parsed: "JSON_parse ?h example_file = Inr (JObj ?cfg)"
    using json_parse_example_file by (simp add: file_host_def)
  have one: "{n. \<exists>w. map_of ?bus n = Some w \<and> loose_eq w (JStr ''100'')} = {''bu1''}"
    by (auto simp add: loose_eq_strings split: if_splits)
  have strings: "getBuName example_config ?h (JStr ''C1'') (JStr ''100'') =
          (Inr (JStr (to_string (JStr ''C1'') @ ''/'' @ ''bu1'')),
           [ExistsSync (configFilePath example_config), ReadFileSync (configFilePath example_config),
            Log Debug (''BU Name is: '' @ to_string (JStr ''C1'') @ ''/'' @ ''bu1'')])"
  proof (rule getBuName_unique_match [where content = example_file and cfg = ?cfg
        and creds = ?creds and cred = ?cred and bus = ?bus])
    show "JSON_parse ?h example_file = Inr (JObj ?cfg)" by (rule parsed)
    show "{n. \<exists>w. map_of ?bus n = Some w \<and> loose_eq w (JStr ''100'')} = {''bu1''}" by (rule one)
  qed (simp_all add: file_host_def example_config_def)
  let ?text2 = \<open>''{"credentials":{"C1":{"businessUnits":{"_ParentBU_":510,"dev":511}}}}''\<close>
  let ?h2 = "file_host ''.mcdev.json'' ?text2"
  let ?bus2 = "[(''_ParentBU_'', JNum 510), (''dev'', JNum 511)]"
  let ?cred2 = "[(''businessUnits'', JObj ?bus2)]"
  let ?creds2 = "[(''C1'', JObj ?cred2)]"
  let ?cfg2 = "[(''credentials'', JObj ?creds2)]"
  have "json_parse ?text2 = Inr (JObj ?cfg2)"
    by code_simp
  then have parsed2: "JSON_parse ?h2 ?text2 = Inr (JObj ?cfg2)"
    by (simp add: file_host_def)
  have parent: "\<not> loose_eq (JNum 510) (JStr ''511'')"
    by code_simp
  have dev: "loose_eq (JNum 511) (JStr ''511'')"
    by code_simp
  have one2: "{n. \<exists>w. map_of ?bus2 n = Some w \<and> loose_eq w (JStr ''511'')} = {''dev''}"
    using parent dev by (auto split: if_splits)
  have numbers: "getBuName example_config ?h2 (JStr ''C1'') (JStr ''511'') =
          (Inr (JStr (to_string (JStr ''C1'') @ ''/'' @ ''dev'')),
           [ExistsSync (configFilePath example_config), ReadFileSync (configFilePath example_config),
            Log Debug (''BU Name is: '' @ to_string (JStr ''C1'') @ ''/'' @ ''dev'')])"
  proof (rule getBuName_unique_match [where content = ?text2 and cfg = ?cfg2
        and creds = ?creds2 and cred = ?cred2 and bus = ?bus2])
    show "JSON_parse ?h2 ?text2 = Inr (JObj ?cfg2)" by (rule parsed2)
    show "{n. \<exists>w. map_of ?bus2 n = Some w \<and> loose_eq w (JStr ''511'')} = {''dev''}"
      by (rule one2)
  qed (simp_all add: file_host_def example_config_def)
  from strings numbers show ?thesis
    by (simp add: example_config_def)
qed

text \<open>Claim C3. Under the same conditions, if the number of business-unit names whose stored
  tenant id loosely equals the requested mid is zero or more than one, \<^verbatim>\<open>getBuName\<close>
  raises an error whose message names the tenant id and the credential name.\<close>

theorem getBuName_no_unique_match:
  assumes "truthy credName" and "truthy mid" and "existsSync h (configFilePath CONFIG)"
    and "readFileSync h (configFilePath CONFIG) = Inr content"
    and "JSON_parse h content = Inr (JObj cfg)"
    and "map_of cfg ''credentials'' = Some (JObj creds)"
    and "map_of creds (to_string credName) = Some (JObj cred)"
    and "map_of cred ''businessUnits'' = Some (JObj bus)"
    and "distinct (map fst bus)"
    and "card {n. \<exists>w. map_of bus n = Some w \<and> loose_eq w mid} \<noteq> 1"
  shows "getBuName CONFIG h credName mid =
           (Inl (Error (''MID '' @ to_string mid @ '' not found for '' @ to_string credName)),
            [ExistsSync (configFilePath CONFIG), ReadFileSync (configFilePath CONFIG)])"
proof -
  define ms where "ms = matching_bu_names (JObj bus) mid (map fst bus)"
  have "distinct ms"
    unfolding ms_def by (rule matching_bu_names_distinct [OF assms(9)])
  then have "length ms = card (set ms)"
    by (simp add: distinct_card)
  also have "set ms = {n. \<exists>w. map_of bus n = Some w \<and> loose_eq w mid}"
    unfolding ms_def by (rule matching_bu_names_set [OF assms(9)])
  finally have "length ms \<noteq> 1"
    using assms(10) by simp
  then have "(case ms of [b] \<Rightarrow> x b | _ \<Rightarrow> y) = y" for x :: "string \<Rightarrow> 'z" and y
    by (cases ms; cases "tl ms") auto
  then show ?thesis
    unfolding getBuName_filtered [OF assms(1-8)] ms_def [symmetric] .
qed

text \<open>The example of the specification: the same file with mid \<^verbatim>\<open>999\<close> has no match and
  raises. In the file \<^verbatim>\<open>{"credentials":{"C1":{"businessUnits":{"bu1":100,"bu2":"100"}}}}\<close>
  the number and the string both equal the mid \<^verbatim>\<open>100\<close> loosely: two matches raise as
  well.\<close>

theorem getBuName_no_unique_match_witness:
  \<open>getBuName example_config (file_host ''.mcdev.json'' example_file) (JStr ''C1'') (JStr ''999'') =
     (Inl (Error ''MID 999 not found for C1''),
      [ExistsSync ''.mcdev.json'', ReadFileSync ''.mcdev.json''])
   \<and> getBuName example_config
        (file_host ''.mcdev.json'' ''{"credentials":{"C1":{"businessUnits":{"bu1":100,"bu2":"100"}}}}'')
        (JStr ''C1'') (JStr ''100'') =
     (Inl (Error ''MID 100 not found for C1''),
      [ExistsSync ''.mcdev.json'', ReadFileSync ''.mcdev.json''])\<close>
proof -
  let ?h = "file_host ''.mcdev.json'' example_file"
  let ?bus = "[(''bu1'', JStr ''100''), (''bu2'', JStr ''200'')]"
  let ?cred = "[(''businessUnits'', JObj ?bus)]"
  let ?creds = "[(''C1'', JObj ?cred)]"
  let ?cfg = "[(''credentials'', JObj ?creds)]"
  have parsed: "JSON_parse ?h example_file = Inr (JObj ?cfg)"
    using json_parse_example_file by (simp add: file_host_def)
  have empty: "{n. \<exists>w. map_of ?bus n = Some w \<and> loose_eq w (JStr ''999'')} = {}"
    by (auto simp add: loose_eq_strings split: if_splits)
  have none: "card {n. \<exists>w. map_of ?bus n = Some w \<and> loose_eq w (JStr ''999'')} \<noteq> 1"
    by (simp only: empty) simp
  have zero: "getBuName example_config ?h (JStr ''C1'') (JStr ''999'') =
          (Inl (Error (''MID '' @ to_string (JStr ''999'') @ '' not found for '' @ to_string (JStr ''C1''))),
           [ExistsSync (configFilePath example_config), ReadFileSync (configFilePath example_config)])"
  proof (rule getBuName_no_unique_match [where content = example_file and cfg = ?cfg
        and creds = ?creds and cred = ?cred and bus = ?bus])
    show "JSON_parse ?h example_file = Inr (JObj ?cfg)" by (rule parsed)
    show "card {n. \<exists>w. map_of ?bus n = Some w \<and> loose_eq w (JStr ''999'')} \<noteq> 1" by (rule none)
  qed (simp_all add: file_host_def example_config_def)
  let ?text2 = \<open>''{"credentials":{"C1":{"businessUnits":{"bu1":100,"bu2":"100"}}}}''\<close>
  let ?h2 = "file_host ''.mcdev.json'' ?text2"
  let ?bus2 = "[(''bu1'', JNum 100), (''bu2'', JStr ''100'')]"
  let ?cred2 = "[(''businessUnits'', JObj ?bus2)]"
  let ?creds2 = "[(''C1'', JObj ?cred2)]"
  let ?cfg2 = "[(''credentials'', JObj ?creds2)]"
  have "json_parse ?text2 = Inr (JObj ?cfg2)"
    by code_simp
  then have parsed2: "JSON_parse ?h2 ?text2 = Inr (JObj ?cfg2)"
    by (simp add: file_host_def)
  have number: "loose_eq (JNum 100) (JStr ''100'')"
    by code_simp
  have both: "{n. \<exists>w. map_of ?bus2 n = Some w \<and> loose_eq w (JStr ''100'')} = {''bu1'', ''bu2''}"
    using number by (auto simp add: loose_eq_strings split: if_splits)
  have many: "card {n. \<exists>w. map_of ?bus2 n = Some w \<and> loose_eq w (JStr ''100'')} \<noteq> 1"
    by (simp only: both) simp
  have two: "getBuName example_config ?h2 (JStr ''C1'') (JStr ''100'') =
          (Inl (Error (''MID '' @ to_string (JStr ''100'') @ '' not found for '' @ to_string (JStr ''C1''))),
           [ExistsSync (configFilePath example_config), ReadFileSync (configFilePath example_config)])"
  proof (rule getBuName_no_unique_match [where content = ?text2 and cfg = ?cfg2
        and creds = ?creds2 and cred = ?cred2 and bus = ?bus2])
    show "JSON_parse ?h2 ?text2 = Inr (JObj ?cfg2)" by (rule parsed2)
    show "card {n. \<exists>w. map_of ?bus2 n = Some w \<and> loose_eq w (JStr ''100'')} \<noteq> 1" by (rule many)
  qed (simp_all add: file_host_def example_config_def)
  from zero two show ?thesis
    by (simp add: example_config_def)
qed

text \<open>Claim C8. \<^verbatim>\<open>getBuName\<close> checks its preconditions in a fixed order: the credential
  name is present, then the tenant id is present, then the configuration file exists. The
  first one violated raises its own error, and the three messages differ. A missing
  credential name or tenant id raises before any file-system call (the trace is empty);
  a missing file raises after the existence check alone.\<close>

theorem getBuName_preconditions:
  \<open>(\<not> truthy credName \<longrightarrow>
      getBuName CONFIG h credName mid =
        (Inl (Error ''System Property "credentialName" not set''), []))
   \<and> (truthy credName \<and> \<not> truthy mid \<longrightarrow>
      getBuName CONFIG h credName mid =
        (Inl (Error ''System Property "mid" not set''), []))
   \<and> (truthy credName \<and> truthy mid \<and> \<not> existsSync h (configFilePath CONFIG) \<longrightarrow>
      getBuName CONFIG h credName mid =
        (Inl (Error (''Could not find config file '' @ configFilePath CONFIG)),
         [ExistsSync (configFilePath CONFIG)]))
   \<and> ''System Property "credentialName" not set'' \<noteq> ''System Property "mid" not set''
   \<and> ''System Property "credentialName" not set'' \<noteq>
       ''Could not find config file '' @ configFilePath CONFIG
   \<and> ''System Property "mid" not set'' \<noteq>
       ''Could not find config file '' @ configFilePath CONFIG\<close>
  by (simp add: getBuName_def comp_defs)

text \<open>The empty credential name raises without a file-system event, whatever the mid; an
  empty mid comes second; on a host without the file the third check raises.\<close>

theorem getBuName_preconditions_witness:
  \<open>getBuName example_config (file_host ''.mcdev.json'' example_file) (JStr []) (JStr ''100'') =
     (Inl (Error ''System Property "credentialName" not set''), [])
   \<and> getBuName example_config (file_host ''.mcdev.json'' example_file) (JStr ''C1'') (JStr []) =
     (Inl (Error ''System Property "mid" not set''), [])
   \<and> getBuName example_config shell_host (JStr ''C1'') (JStr ''100'') =
     (Inl (Error ''Could not find config file .mcdev.json''), [ExistsSync ''.mcdev.json''])\<close>
  using getBuName_preconditions [where credName = "JStr []" and mid = "JStr ''100''"
      and CONFIG = example_config and h = "file_host ''.mcdev.json'' example_file"]
    getBuName_preconditions [where credName = "JStr ''C1''" and mid = "JStr []"
      and CONFIG = example_config and h = "file_host ''.mcdev.json'' example_file"]
    getBuName_preconditions [where credName = "JStr ''C1''" and mid = "JStr ''100''"
      and CONFIG = example_config and h = shell_host]
  by (simp add: example_config_def shell_host_def)

text \<open>Claim C9. With a credential name and a mid that are present and an existing
  configuration file, if the parsed file's \<^verbatim>\<open>credentials\<close> has no entry for the
  credential name, or has one without a \<^verbatim>\<open>businessUnits\<close> field, \<^verbatim>\<open>getBuName\<close>
  returns \<^verbatim>\<open>undefined\<close> and does not raise.\<close>

theorem getBuName_no_resolution:
  assumes "truthy credName" and "truthy mid" and "existsSync h (configFilePath CONFIG)"
    and "readFileSync h (configFilePath CONFIG) = Inr content"
    and "JSON_parse h content = Inr (JObj cfg)"
    and "map_of cfg ''credentials'' = Some (JObj creds)"
    and "map_of creds (to_string credName) = None
         \<or> (\<exists>cred. map_of creds (to_string credName) = Some (JObj cred)
                   \<and> map_of cred ''businessUnits'' = None)"
  shows "getBuName CONFIG h credName mid =
           (Inr JUndefined,
            [ExistsSync (configFilePath CONFIG), ReadFileSync (configFilePath CONFIG)])"
  using assms by (auto simp add: getBuName_def comp_defs)

text \<open>The example file has no credential \<^verbatim>\<open>C2\<close>; the file
  \<^verbatim>\<open>{"credentials":{"C1":{}}}\<close> has the credential without business units.\<close>

theorem getBuName_no_resolution_witness:
  \<open>getBuName example_config (file_host ''.mcdev.json'' example_file) (JStr ''C2'') (JStr ''100'') =
     (Inr JUndefined, [ExistsSync ''.mcdev.json'', ReadFileSync ''.mcdev.json''])
   \<and> getBuName example_config (file_host ''.mcdev.json'' ''{"credentials":{"C1":{}}}'')
        (JStr ''C1'') (JStr ''100'') =
     (Inr JUndefined, [ExistsSync ''.mcdev.json'', ReadFileSync ''.mcdev.json''])\<close>
proof -
  have bare: \<open>json_parse ''{"credentials":{"C1":{}}}'' =
                Inr (JObj [(''credentials'', JObj [(''C1'', JObj [])])])\<close>
    by code_simp
  have absent: "getBuName example_config (file_host ''.mcdev.json'' example_file)
                  (JStr ''C2'') (JStr ''100'') =
      (Inr JUndefined,
       [ExistsSync (configFilePath example_config), ReadFileSync (configFilePath example_config)])"
    by (rule getBuName_no_resolution [where content = example_file
          and cfg = "[(''credentials'', JObj [(''C1'', JObj [(''businessUnits'',
                        JObj [(''bu1'', JStr ''100''), (''bu2'', JStr ''200'')])])])]"
          and creds = "[(''C1'', JObj [(''businessUnits'',
                        JObj [(''bu1'', JStr ''100''), (''bu2'', JStr ''200'')])])]"])
       (simp_all add: file_host_def example_config_def json_parse_example_file)
  have no_units: \<open>getBuName example_config (file_host ''.mcdev.json'' ''{"credentials":{"C1":{}}}'')
                  (JStr ''C1'') (JStr ''100'') =
      (Inr JUndefined,
       [ExistsSync (configFilePath example_config), ReadFileSync (configFilePath example_config)])\<close>
    by (rule getBuName_no_resolution [where content = \<open>''{"credentials":{"C1":{}}}''\<close>
          and cfg = "[(''credentials'', JObj [(''C1'', JObj [])])]"
          and creds = "[(''C1'', JObj [])]"])
       (simp_all add: file_host_def example_config_def bare)
  from absent no_units show ?thesis
    by (simp add: example_config_def)
qed

text \<open>Claim C10. With a credential name and a mid that are present and an existing
  configuration file, if the parsed document has no top-level \<^verbatim>\<open>credentials\<close> field,
  \<^verbatim>\<open>getBuName\<close> raises a TypeError (the read of \<^verbatim>\<open>config.credentials[credName]\<close> is
  not guarded) instead of returning \<^verbatim>\<open>undefined\<close>.\<close>

theorem getBuName_no_credentials:
  assumes "truthy credName" and "truthy mid" and "existsSync h (configFilePath CONFIG)"
    and "readFileSync h (configFilePath CONFIG) = Inr content"
    and "JSON_parse h content = Inr (JObj cfg)"
    and "map_of cfg ''credentials'' = None"
  shows "getBuName CONFIG h credName mid =
           (Inl TypeError,
            [ExistsSync (configFilePath CONFIG), ReadFileSync (configFilePath CONFIG)])"
  using assms by (simp add: getBuName_def comp_defs)

text \<open>The file \<^verbatim>\<open>{"version":1}\<close> has no \<^verbatim>\<open>credentials\<close>.\<close>

theorem getBuName_no_credentials_witness:
  \<open>getBuName example_config (file_host ''.mcdev.json'' ''{"version":1}'') (JStr ''C1'') (JStr ''100'') =
     (Inl TypeError, [ExistsSync ''.mcdev.json'', ReadFileSync ''.mcdev.json''])\<close>
proof -
  have parsed: \<open>json_parse ''{"version":1}'' = Inr (JObj [(''version'', JNum 1)])\<close>
    by code_simp
  have \<open>getBuName example_config (file_host ''.mcdev.json'' ''{"version":1}'')
          (JStr ''C1'') (JStr ''100'') =
      (Inl TypeError,
       [ExistsSync (configFilePath example_config), ReadFileSync (configFilePath example_config)])\<close>
    by (rule getBuName_no_credentials [where content = \<open>''{"version":1}''\<close>
          and cfg = "[(''version'', JNum 1)]"])
       (simp_all add: file_host_def example_config_def parsed)
  then show ?thesis
    by (simp add: example_config_def)
qed

section \<open>Command executor: the claims\<close>

text \<open>Claim C2, as amended. \<^verbatim>\<open>execCommandReturnStatus\<close> never raises. It returns \<open>0\<close> when
  the external process succeeds. When \<^verbatim>\<open>execSync\<close> throws, it returns the \<^verbatim>\<open>status\<close>
  field of the caught exception unchanged: the exit code the process reported, or, when
  there is none, \<^verbatim>\<open>null\<close> or \<^verbatim>\<open>undefined\<close> as the exception has it. Neither of the two
  is the number \<open>0\<close>, but the code does not settle on one of them.\<close>

theorem execCommandReturnStatus_returns_status:
  "(\<exists>v. fst (execCommandReturnStatus h preMsg command postMsg) = Inr v)
   \<and> (execSync h (command_line command) = None \<longrightarrow>
        fst (execCommandReturnStatus h preMsg command postMsg) = Inr (JNum 0))
   \<and> (\<forall>ex. execSync h (command_line command) = Some ex \<longrightarrow>
        fst (execCommandReturnStatus h preMsg command postMsg) = Inr (status ex)
        \<and> (nullish (status ex) \<longrightarrow> status ex \<noteq> JNum 0))"
  by (cases preMsg; cases postMsg; cases "execSync h (command_line command)")
     (auto simp add: execCommandReturnStatus_def comp_defs)

text \<open>On the example host a succeeding command yields \<open>0\<close> and the script that exits with
  code 3 yields \<open>3\<close>.\<close>

theorem execCommandReturnStatus_returns_status_witness:
  "fst (execCommandReturnStatus shell_host None (Cmds [''cd /tmp'', ''ls'']) (Some ''listed'')) =
     Inr (JNum 0)
   \<and> fst (execCommandReturnStatus shell_host (Some ''Deploying'') (Cmd ''./deploy.sh'') None) =
     Inr (JNum 3)"
  using execCommandReturnStatus_returns_status [where h = shell_host and preMsg = None
      and command = "Cmds [''cd /tmp'', ''ls'']" and postMsg = "Some ''listed''"]
    execCommandReturnStatus_returns_status [where h = shell_host and preMsg = "Some ''Deploying''"
      and command = "Cmd ''./deploy.sh''" and postMsg = None]
  by (simp add: shell_host_def exited_def)

text \<open>The claim as stated asks for a single sentinel when there is no status. A child
  killed by a signal and a command line rejected before any process starts are both without
  status, and the results differ: \<^verbatim>\<open>null\<close> for the first, \<^verbatim>\<open>undefined\<close> for the second.\<close>

theorem execCommandReturnStatus_sentinel_counterexample:
  "execSync shell_host ''sleep 60'' = Some (killed ''sleep 60'')
   \<and> execSync shell_host [] = Some (not_started [])
   \<and> nullish (status (killed ''sleep 60''))
   \<and> nullish (status (not_started []))
   \<and> fst (execCommandReturnStatus shell_host None (Cmd ''sleep 60'') None) = Inr JNull
   \<and> fst (execCommandReturnStatus shell_host None (Cmd []) None) = Inr JUndefined
   \<and> fst (execCommandReturnStatus shell_host None (Cmd ''sleep 60'') None) \<noteq>
       fst (execCommandReturnStatus shell_host None (Cmd []) None)"
  by (simp add: execCommandReturnStatus_def comp_defs shell_host_def killed_def not_started_def)

text \<open>Claim C4, as amended. When \<^verbatim>\<open>execSync\<close> throws, \<^verbatim>\<open>execCommand\<close> logs the status and
  the message of the exception at info level, as its last event and with no event at error
  level, and then raises a new \<^verbatim>\<open>Error\<close> whose message is the string form of the
  exception. The exit status is part of the info line; the raised error has it only where
  that string form does.\<close>

theorem execCommand_failure:
  assumes "execSync h (command_line command) = Some ex"
  shows "execCommand h preMsg command postMsg =
           (Inl (Error (as_string ex)),
            (case preMsg of Some m \<Rightarrow> [Log Progress m] | None \<Rightarrow> []) @
            [Log Debug (bolt @ command_line command),
             ExecSync (command_line command),
             Log Info (to_string (status ex) @ '': '' @ message ex)])
         \<and> (\<forall>m. Log Err m \<notin> set (snd (execCommand h preMsg command postMsg)))"
  using assms by (cases preMsg) (auto simp add: execCommand_def comp_defs)

text \<open>The script that exits with code 3: the info line starts with \<open>3\<close>, then the error is
  raised.\<close>

theorem execCommand_failure_witness:
  "execCommand shell_host (Some ''Deploying'') (Cmd ''./deploy.sh'') (Some ''Deployed'') =
     (Inl (Error ''Error: Command failed: ./deploy.sh''),
      [Log Progress ''Deploying'',
       Log Debug (bolt @ ''./deploy.sh''),
       ExecSync ''./deploy.sh'',
       Log Info ''3: Command failed: ./deploy.sh''])"
proof -
  have threw: "execSync shell_host (command_line (Cmd ''./deploy.sh'')) = Some (exited 3 ''./deploy.sh'')"
    by (simp add: shell_host_def)
  have three: "to_string (JNum 3) = ''3''"
    by code_simp
  from execCommand_failure [OF threw, of "Some ''Deploying''" "Some ''Deployed''"] three
  show ?thesis
    by (simp add: exited_def)
qed

text \<open>The claim as stated has the raised error include the exit code 3. For the script
  that exits with code 3 the raised error is \<^verbatim>\<open>Error: Command failed: ./deploy.sh\<close>, and
  no \<open>3\<close> occurs in it.\<close>

theorem execCommand_error_message_counterexample:
  "execSync shell_host ''./deploy.sh'' = Some (exited 3 ''./deploy.sh'')
   \<and> status (exited 3 ''./deploy.sh'') = JNum 3
   \<and> fst (execCommand shell_host None (Cmd ''./deploy.sh'') None) =
       Inl (Error ''Error: Command failed: ./deploy.sh'')
   \<and> CHR ''3'' \<notin> set ''Error: Command failed: ./deploy.sh''"
  by (simp add: execCommand_def comp_defs shell_host_def exited_def)

section \<open>Configuration normaliser: the claims\<close>

subsection \<open>Iterating over well-formed entries\<close>

lemma assign_ordinary:
  assumes "k \<noteq> ''__proto__''"
  shows "assign (own, p) k v vproto = (set_prop own k v, p)"
  using assms by (simp add: assign_def)

lemma env_var_props:
  assumes "env_var item = Some (n, v)"
  shows "get_prop item ''name'' = Inr (JStr n)" and "get_prop item ''value'' = Inr v"
  using assms by (cases item; simp split: option.splits jsval.splits)+

text \<open>When no name is \<^verbatim>\<open>__proto__\<close> the flat iteration writes the pairs in order as own
  properties and leaves the prototype alone: the response is, as a map, the pairs read from
  the last to the first, on top of what the response held.\<close>

lemma convertEnvVars_loop_entries:
  assumes "map env_var items = map Some nvs"
    and "''__proto__'' \<notin> fst ` set nvs"
  shows "\<exists>obj. convertEnvVars_loop (acc, p) items = Inr (obj, p)
           \<and> (distinct (map fst acc) \<longrightarrow> distinct (map fst obj))
           \<and> map_of obj = map_of (rev nvs @ acc)"
  using assms
proof (induction items arbitrary: acc nvs)
  case Nil
  then show ?case by simp
next
  case (Cons item items)
  then obtain n v nvs' where nvs: "nvs = (n, v) # nvs'"
    and item: "env_var item = Some (n, v)" and rest: "map env_var items = map Some nvs'"
    by (cases nvs) auto
  from Cons.prems(2) nvs have n: "n \<noteq> ''__proto__''"
    and names: "''__proto__'' \<notin> fst ` set nvs'"
    by auto
  from Cons.IH [OF rest names, of "set_prop acc n v"]
  obtain obj where obj: "convertEnvVars_loop (set_prop acc n v, p) items = Inr (obj, p)"
    "distinct (map fst (set_prop acc n v)) \<longrightarrow> distinct (map fst obj)"
    "map_of obj = map_of (rev nvs' @ set_prop acc n v)"
    by blast
  have "convertEnvVars_loop (acc, p) (item # items) = Inr (obj, p)"
    using env_var_props [OF item] obj(1) assign_ordinary [OF n] by simp
  moreover have "distinct (map fst acc) \<longrightarrow> distinct (map fst obj)"
    using obj(2) distinct_set_prop by blast
  moreover have "map_of obj = map_of (rev nvs @ acc)"
    using obj(3)
    by (simp add: nvs map_of_set_prop fun_eq_iff map_add_def split: option.splits)
  ultimately show ?case by blast
qed

lemma convertEnvVars_entries:
  assumes "map env_var items = map Some nvs"
    and "''__proto__'' \<notin> fst ` set nvs"
    and "input = JArr items \<or> (\<exists>s. input = JStr s \<and> s \<noteq> [] \<and> parse s = Inr (JArr items))"
  shows "\<exists>obj. convertEnvVars parse input = Inr (JObj obj)
           \<and> distinct (map fst obj)
           \<and> map_of obj = map_of (rev nvs)"
proof -
  from convertEnvVars_loop_entries [OF assms(1,2), of "[]" ObjectPrototype]
  obtain obj where obj: "convertEnvVars_loop ([], ObjectPrototype) items = Inr (obj, ObjectPrototype)"
    "distinct (map fst obj)" "map_of obj = map_of (rev nvs)"
    by auto
  from assms(3) have "convertEnvVars parse input = Inr (JObj obj)"
    using obj(1) by (auto simp add: convertEnvVars_def convertEnvVars_response_def)
  with obj show ?thesis by blast
qed

lemma convertEnvVars_object: "convertEnvVars parse (JObj obj) = Inl TypeError"
  by (simp add: convertEnvVars_def convertEnvVars_response_def)





subsection \<open>The dispatch loop\<close>





subsection \<open>The claims\<close>




text \<open>Claim C5, as amended. For every well-formed sequence of \<^verbatim>\<open>{name, value}\<close> entries
  whose names are other than \<^verbatim>\<open>__proto__\<close>, \<^verbatim>\<open>_convertEnvVars\<close> returns a mapping, a
  function of its input alone; applied to that mapping it raises a TypeError, since a plain
  object is not iterable. It is not idempotent on its own output.\<close>

theorem convertEnvVars_not_idempotent:
  assumes "map env_var items = map Some nvs"
    and "''__proto__'' \<notin> fst ` set nvs"
  shows "\<exists>obj. convertEnvVars parse (JArr items) = Inr (JObj obj)
           \<and> map_of obj = map_of (rev nvs)
           \<and> convertEnvVars parse (JObj obj) = Inl TypeError"
  using convertEnvVars_entries [OF assms, of "JArr items" parse] convertEnvVars_object
  by auto

text \<open>Two entries give a mapping of two names, and the transform raises on that mapping.\<close>

theorem convertEnvVars_not_idempotent_witness:
  "convertEnvVars json_parse
     (JArr [JObj [(''name'', JStr ''X''), (''value'', JStr ''1'')],
            JObj [(''name'', JStr ''Y''), (''value'', JStr ''2'')]]) =
     Inr (JObj [(''X'', JStr ''1''), (''Y'', JStr ''2'')])
   \<and> convertEnvVars json_parse (JObj [(''X'', JStr ''1''), (''Y'', JStr ''2'')]) = Inl TypeError"
proof -
  let ?items = "[JObj [(''name'', JStr ''X''), (''value'', JStr ''1'')],
                 JObj [(''name'', JStr ''Y''), (''value'', JStr ''2'')]]"
  have run: "convertEnvVars json_parse (JArr ?items) =
               Inr (JObj [(''X'', JStr ''1''), (''Y'', JStr ''2'')])"
    by code_simp
  have entries: "map env_var ?items = map Some [(''X'', JStr ''1''), (''Y'', JStr ''2'')]"
    by simp
  have names: "''__proto__'' \<notin> fst ` set [(''X'', JStr ''1''), (''Y'', JStr ''2'')]"
    by simp
  from convertEnvVars_not_idempotent [OF entries names, of json_parse]
  obtain obj where "convertEnvVars json_parse (JArr ?items) = Inr (JObj obj)"
    and "convertEnvVars json_parse (JObj obj) = Inl TypeError"
    by blast
  with run show ?thesis
    by simp
qed

text \<open>The claim as stated has the transform of the transform equal the transform. On the
  one-entry list \<^verbatim>\<open>[{name: "X", value: "1"}]\<close> the first application returns
  \<^verbatim>\<open>{"X": "1"}\<close> and the second does not return it.\<close>

theorem convertEnvVars_twice_counterexample:
  "convertEnvVars json_parse (JArr [JObj [(''name'', JStr ''X''), (''value'', JStr ''1'')]]) =
     Inr (JObj [(''X'', JStr ''1'')])
   \<and> convertEnvVars json_parse (JObj [(''X'', JStr ''1'')]) \<noteq> Inr (JObj [(''X'', JStr ''1'')])"
  by (simp add: convertEnvVars_def convertEnvVars_response_def assign_def)




end
